theory Spec2Isabelle
  imports Complex_Main
begin

section \<open>Particles: the Vertex struct\<close>

text \<open>
  The struct \<^verbatim>\<open>Vertex\<close> holds two arrays \<^verbatim>\<open>float[DIMENSION + 1]\<close> and an
  \<^verbatim>\<open>int\<close>. An array of four floats is a value with four components, read and written
  by index; the floats are idealised as real numbers. The indices in use are 0 to 3
  (\<^verbatim>\<open>DIMENSION\<close> is the last one); \<open>get4\<close> and \<open>set4\<close> are never applied to
  another index.
\<close>

definition DIMENSION :: nat where
  "DIMENSION = 3"

datatype float4 = Float4 real real real real

fun get4 :: "float4 \<Rightarrow> nat \<Rightarrow> real" where
  "get4 (Float4 a b c d) i =
     (if i = 0 then a else if i = 1 then b else if i = 2 then c else d)"

fun set4 :: "float4 \<Rightarrow> nat \<Rightarrow> real \<Rightarrow> float4" where
  "set4 (Float4 a b c d) i v =
     (if i = 0 then Float4 v b c d else if i = 1 then Float4 a v c d
      else if i = 2 then Float4 a b v d else Float4 a b c v)"

record Vertex =
  position :: float4
  velocity :: float4
  triangleCount :: int

text \<open>
  The constructor \<^verbatim>\<open>Vertex()\<close> runs on storage that already holds some content
  \<open>raw\<close>; it executes two assignments and nothing else, so every other cell keeps what
  the storage held.
\<close>

definition Vertex_ctor :: "Vertex \<Rightarrow> Vertex" where
  "Vertex_ctor raw =
     (let v1 = raw\<lparr>position := set4 (position raw) DIMENSION 1\<rparr>;
          v2 = v1\<lparr>velocity := set4 (velocity v1) DIMENSION 1\<rparr>
      in v2)"

section \<open>The driver: render\<close>

text \<open>
  \<^verbatim>\<open>whichMethod\<close> is a global constant of the driver; the \<^verbatim>\<open>switch\<close> of
  \<^verbatim>\<open>render\<close> on it is a function of the method number.
\<close>

definition whichMethod :: int where
  "whichMethod = 1"

definition timeElapsed_of :: "int \<Rightarrow> real" where
  "timeElapsed_of m =
     (if m = 1 then 0.005
      else if m = 2 then 0.005
      else if m = 3 then 0.0005
      else 0.005)"

text \<open>
  The calls \<^verbatim>\<open>render\<close> makes are recorded in a trace, in order. The class
  \<^verbatim>\<open>ParticleSystem\<close> is declared outside the driver: its three methods called here are
  parameters, each a transformer of the particle system's state \<open>'ps\<close>.
\<close>

datatype event =
    GlutGet
  | DoUpdate real
  | CalculateNormals
  | GlClear
  | GlLoadIdentity
  | DoTransform
  | DoRender real
  | GlFlush
  | GlutSwapBuffers
  | CoutFrameTime

record 'ps methods =
  doUpdate :: "real \<Rightarrow> 'ps \<Rightarrow> 'ps"
  calculateNormals :: "'ps \<Rightarrow> 'ps"
  doRender :: "real \<Rightarrow> 'ps \<Rightarrow> 'ps"

record 'ps world =
  particleSystem :: 'ps
  trace :: "event list"

record Logger =
  isLogging :: bool
  loggingLevel :: int
  LIGHT :: int

definition emit :: "event \<Rightarrow> 'ps world \<Rightarrow> 'ps world" where
  "emit e w = w\<lparr>trace := trace w @ [e]\<rparr>"

definition call_doUpdate :: "'ps methods \<Rightarrow> real \<Rightarrow> 'ps world \<Rightarrow> 'ps world" where
  "call_doUpdate m t w =
     emit (DoUpdate t) (w\<lparr>particleSystem := doUpdate m t (particleSystem w)\<rparr>)"

definition call_calculateNormals :: "'ps methods \<Rightarrow> 'ps world \<Rightarrow> 'ps world" where
  "call_calculateNormals m w =
     emit CalculateNormals (w\<lparr>particleSystem := calculateNormals m (particleSystem w)\<rparr>)"

definition call_doRender :: "'ps methods \<Rightarrow> real \<Rightarrow> 'ps world \<Rightarrow> 'ps world" where
  "call_doRender m t w =
     emit (DoRender t) (w\<lparr>particleSystem := doRender m t (particleSystem w)\<rparr>)"

text \<open>The loop \<^verbatim>\<open>for (int i = 0; i < 10; i++) particleSystem -> doUpdate(timeElapsed);\<close>\<close>

function update_loop :: "'ps methods \<Rightarrow> real \<Rightarrow> int \<Rightarrow> 'ps world \<Rightarrow> 'ps world" where
  "update_loop m t i w =
     (if i < 10 then update_loop m t (i + 1) (call_doUpdate m t w) else w)"
  by pat_completeness auto
termination
  by (relation "measure (\<lambda>(m, t, i, w). nat (10 - i))") auto

text \<open>
  \<^verbatim>\<open>render\<close>. The two blocks under \<^verbatim>\<open>#ifdef DEBUGGING\<close> are compiled in when the
  macro is defined (\<open>debugging\<close>); they read the clock and may print the frame time.
\<close>

definition render :: "bool \<Rightarrow> Logger \<Rightarrow> 'ps methods \<Rightarrow> 'ps world \<Rightarrow> 'ps world" where
  "render debugging logger m w0 =
     (let w1 = (if debugging \<and> isLogging logger then emit GlutGet w0 else w0);
          timeElapsed = timeElapsed_of whichMethod;
          w2 = update_loop m timeElapsed 0 w1;
          w3 = call_calculateNormals m w2;
          w4 = emit GlClear w3;
          w5 = emit GlLoadIdentity w4;
          w6 = emit DoTransform w5;
          w7 = call_doRender m (timeElapsed * 4) w6;
          w8 = emit GlFlush w7;
          w9 = emit GlutSwapBuffers w8
      in if debugging \<and> isLogging logger
         then (let w10 = emit GlutGet w9
               in if loggingLevel logger \<ge> LIGHT logger then emit CoutFrameTime w10 else w10)
         else w9)"

text \<open>The calls of a frame that go to the particle system.\<close>

fun is_particleSystem_call :: "event \<Rightarrow> bool" where
  "is_particleSystem_call (DoUpdate t) = True"
| "is_particleSystem_call CalculateNormals = True"
| "is_particleSystem_call (DoRender t) = True"
| "is_particleSystem_call e = False"

definition frame_calls :: "real \<Rightarrow> event list" where
  "frame_calls t = replicate 10 (DoUpdate t) @
     [CalculateNormals, GlClear, GlLoadIdentity, DoTransform, DoRender (t * 4),
      GlFlush, GlutSwapBuffers]"

section \<open>The simulation core\<close>

text \<open>
  The class \<^verbatim>\<open>ParticleSystem\<close> and its subclasses (\<^verbatim>\<open>doUpdate\<close>,
  \<^verbatim>\<open>calculateNormals\<close>, the force models, the solver) are not among the sources: the
  driver only calls them. The definitions of this section are written from the design
  document of the core, section by section, and each says so.
\<close>

subsection \<open>Vectors\<close>

text \<open>
  Modelled from the spec: positions, velocities, forces and normals are three-dimensional
  vectors (\<section>3); the vector type of the absent classes is missing. The operations are
  the usual ones.
\<close>

type_synonym vec3 = "real \<times> real \<times> real"

definition vzero :: vec3 where
  "vzero = (0, 0, 0)"

fun vadd :: "vec3 \<Rightarrow> vec3 \<Rightarrow> vec3" where
  "vadd (a, b, c) (d, e, f) = (a + d, b + e, c + f)"

fun vsub :: "vec3 \<Rightarrow> vec3 \<Rightarrow> vec3" where
  "vsub (a, b, c) (d, e, f) = (a - d, b - e, c - f)"

fun smul :: "real \<Rightarrow> vec3 \<Rightarrow> vec3" where
  "smul k (a, b, c) = (k * a, k * b, k * c)"

fun dot3 :: "vec3 \<Rightarrow> vec3 \<Rightarrow> real" where
  "dot3 (a, b, c) (d, e, f) = a * d + b * e + c * f"

fun cross3 :: "vec3 \<Rightarrow> vec3 \<Rightarrow> vec3" where
  "cross3 (a, b, c) (d, e, f) = (b * f - c * e, c * d - a * f, a * e - b * d)"

definition norm3 :: "vec3 \<Rightarrow> real" where
  "norm3 u = sqrt (dot3 u u)"

text \<open>
  Modelled from the spec: the vectors the solver works on (\<section>4.3: dot products and
  linear combinations), one \<open>vec3\<close> per particle; their type is missing with the solver.
\<close>

definition lzero :: "nat \<Rightarrow> vec3 list" where
  "lzero n = replicate n vzero"

definition ladd :: "vec3 list \<Rightarrow> vec3 list \<Rightarrow> vec3 list" where
  "ladd xs ys = map2 vadd xs ys"

definition lsub :: "vec3 list \<Rightarrow> vec3 list \<Rightarrow> vec3 list" where
  "lsub xs ys = map2 vsub xs ys"

definition lsmul :: "real \<Rightarrow> vec3 list \<Rightarrow> vec3 list" where
  "lsmul k xs = map (smul k) xs"

definition ldot :: "vec3 list \<Rightarrow> vec3 list \<Rightarrow> real" where
  "ldot xs ys = sum_list (map2 dot3 xs ys)"

definition lnorm :: "vec3 list \<Rightarrow> real" where
  "lnorm xs = sqrt (ldot xs xs)"

subsection \<open>Data model\<close>

text \<open>
  Modelled from the spec: the three-dimensional position and velocity of a Particle
  (\<section>3), read from and written to the first three cells of the arrays of the
  \<^verbatim>\<open>Vertex\<close> of the sources; the accessors of the absent \<^verbatim>\<open>ParticleSystem\<close> are
  missing. Writing leaves the fourth cell alone.
\<close>

definition pos3 :: "Vertex \<Rightarrow> vec3" where
  "pos3 p = (get4 (position p) 0, get4 (position p) 1, get4 (position p) 2)"

definition vel3 :: "Vertex \<Rightarrow> vec3" where
  "vel3 p = (get4 (velocity p) 0, get4 (velocity p) 1, get4 (velocity p) 2)"

fun set_pos3 :: "Vertex \<Rightarrow> vec3 \<Rightarrow> Vertex" where
  "set_pos3 p (a, b, c) = p\<lparr>position := set4 (set4 (set4 (position p) 0 a) 1 b) 2 c\<rparr>"

fun set_vel3 :: "Vertex \<Rightarrow> vec3 \<Rightarrow> Vertex" where
  "set_vel3 p (a, b, c) = p\<lparr>velocity := set4 (set4 (set4 (velocity p) 0 a) 1 b) 2 c\<rparr>"

text \<open>
  Modelled from the spec: the Structural Connection of \<section>3 (its declaration is
  missing): two particle indices, a rest length and a stiffness/damping coefficient pair.
\<close>

record Edge =
  edgeI :: nat
  edgeJ :: nat
  restLength :: real
  edgeStiffness :: real
  edgeDamping :: real

text \<open>
  Modelled from the spec: the Topology of \<section>2 and \<section>3 (its declaration is missing):
  the structural connections, the volumetric elements (tetrahedra) and the Surface
  Triangles, each a tuple of particle indices.
\<close>

record Topology =
  edges :: "Edge list"
  elements :: "(nat \<times> nat \<times> nat \<times> nat) list"
  triangles :: "(nat \<times> nat \<times> nat) list"

text \<open>
  Modelled from the spec: the Simulation Parameters of \<section>3 (the fields of the absent
  \<^verbatim>\<open>ParticleSystem\<close> are missing).
\<close>

record SimulationParameters =
  springConstant :: real
  dampingConstant :: real
  gravity :: real
  restLengthScale :: real

text \<open>
  Modelled from the spec: the constants the design leaves open and the absent code
  fixes: the small length under which a connection is skipped (\<section>4.1), the solver's
  tolerance and its iteration cap (\<section>4.3).
\<close>

record NumericalSettings =
  lengthEpsilon :: real
  tolerance :: real
  maxIterations :: nat

text \<open>
  Modelled from the spec: the two steady states of the Integrator (\<section>4.4), whose code
  is missing.
\<close>

datatype Mode = ImplicitStep | ExplicitStep

text \<open>
  Modelled from the spec: the Force Model as the capability interface of \<section>9, three
  operations selected at construction, in place of the absent class hierarchy. Each
  reads the parameters, the small length, the topology, the positions and the
  velocities; the force also reads the Pin Set, and the two Jacobians are applied to a
  perturbation.
\<close>

record ForceModel =
  computeForces ::
    "SimulationParameters \<Rightarrow> real \<Rightarrow> Topology \<Rightarrow> nat set \<Rightarrow> vec3 list \<Rightarrow> vec3 list \<Rightarrow> vec3 list"
  applyPositionJacobian ::
    "SimulationParameters \<Rightarrow> real \<Rightarrow> Topology \<Rightarrow> vec3 list \<Rightarrow> vec3 list \<Rightarrow> vec3 list \<Rightarrow> vec3 list"
  applyVelocityJacobian ::
    "SimulationParameters \<Rightarrow> real \<Rightarrow> Topology \<Rightarrow> vec3 list \<Rightarrow> vec3 list \<Rightarrow> vec3 list \<Rightarrow> vec3 list"

text \<open>
  Modelled from the spec: the state the engine owns (\<section>2, \<section>3), in place of the
  fields of the absent \<^verbatim>\<open>ParticleSystem\<close>: Particle State, per-vertex normals,
  Topology, Pin Set, Simulation Parameters, the stepping mode and the Force Model.
\<close>

record ParticleSystem =
  particles :: "Vertex list"
  normals :: "vec3 list"
  topology :: Topology
  pinSet :: "nat set"
  parameters :: SimulationParameters
  settings :: NumericalSettings
  mode :: Mode
  forceModel :: ForceModel

subsection \<open>Force Model: Linear-Spring-Damper\<close>

text \<open>
  Modelled from the spec: the contribution of one Structural Connection to the
  Linear-Spring-Damper force of \<section>4.1, whose code is absent. The force is
  \<open>- k (|x\<^sub>i - x\<^sub>j| - L\<^sub>0) dir - k\<^sub>d ((v\<^sub>i - v\<^sub>j) \<bullet> dir) dir\<close>, added to one endpoint and
  subtracted from the other; a connection shorter than the small epsilon is skipped.
  \<open>k\<close> and \<open>k\<^sub>d\<close> are the spring and damping constants of the Simulation Parameters,
  \<open>L\<^sub>0\<close> is the rest length times the current rest-length scale.
\<close>

definition addEdgeForce ::
  "SimulationParameters \<Rightarrow> real \<Rightarrow> vec3 list \<Rightarrow> vec3 list \<Rightarrow> Edge \<Rightarrow> vec3 list \<Rightarrow> vec3 list" where
  "addEdgeForce P eps x v e F =
     (let i = edgeI e; j = edgeJ e;
          d = vsub (x ! i) (x ! j);
          l = norm3 d
      in if l < eps then F
         else
           (let dir = smul (1 / l) d;
                L0 = restLengthScale P * restLength e;
                f = vsub (smul (- (springConstant P * (l - L0))) dir)
                         (smul (dampingConstant P * dot3 (vsub (v ! i) (v ! j)) dir) dir);
                F1 = F[i := vadd (F ! i) f]
            in F1[j := vsub (F1 ! j) f]))"

text \<open>
  Modelled from the spec: the uniform gravitational force of \<section>4.1 (absent code),
  mass times gravitational acceleration with unit mass, downward (along the negative
  second axis), added to every particle outside the Pin Set.
\<close>

definition addGravity :: "SimulationParameters \<Rightarrow> nat set \<Rightarrow> vec3 list \<Rightarrow> vec3 list" where
  "addGravity P pins F =
     map (\<lambda>i. if i \<in> pins then F ! i else vadd (F ! i) (0, - gravity P, 0)) [0..<length F]"

text \<open>
  Modelled from the spec: the force of the Linear-Spring-Damper variant (\<section>4.1, absent
  code): the contributions of all connections, then gravity.
\<close>

definition linearForces ::
  "SimulationParameters \<Rightarrow> real \<Rightarrow> Topology \<Rightarrow> nat set \<Rightarrow> vec3 list \<Rightarrow> vec3 list \<Rightarrow> vec3 list" where
  "linearForces P eps T pins x v =
     addGravity P pins (fold (addEdgeForce P eps x v) (edges T) (lzero (length x)))"

text \<open>
  Modelled from the spec: the position Jacobian of the Linear-Spring-Damper force
  applied to a perturbation \<open>u\<close> (\<section>4.1, absent code): per connection the along-axis
  stiffness term and the orthogonal geometric-stiffening term of the derivative of the
  spring force.
\<close>

definition addEdgePositionJacobian ::
  "SimulationParameters \<Rightarrow> real \<Rightarrow> vec3 list \<Rightarrow> vec3 list \<Rightarrow> Edge \<Rightarrow> vec3 list \<Rightarrow> vec3 list" where
  "addEdgePositionJacobian P eps x u e G =
     (let i = edgeI e; j = edgeJ e;
          d = vsub (x ! i) (x ! j);
          l = norm3 d
      in if l < eps then G
         else
           (let dir = smul (1 / l) d;
                L0 = restLengthScale P * restLength e;
                du = vsub (u ! i) (u ! j);
                along = smul (dot3 dir du) dir;
                across = smul (1 - L0 / l) (vsub du along);
                g = smul (- springConstant P) (vadd across along);
                G1 = G[i := vadd (G ! i) g]
            in G1[j := vsub (G1 ! j) g]))"

text \<open>
  Modelled from the spec: the position Jacobian over all connections (\<section>4.1, absent
  code).
\<close>

definition linearPositionJacobian ::
  "SimulationParameters \<Rightarrow> real \<Rightarrow> Topology \<Rightarrow> vec3 list \<Rightarrow> vec3 list \<Rightarrow> vec3 list \<Rightarrow> vec3 list" where
  "linearPositionJacobian P eps T x v u =
     fold (addEdgePositionJacobian P eps x u) (edges T) (lzero (length x))"

text \<open>
  Modelled from the spec: the velocity Jacobian of the Linear-Spring-Damper force
  applied to a perturbation \<open>u\<close> (\<section>4.1, absent code): the derivative of the damping
  term for a fixed direction.
\<close>

definition addEdgeVelocityJacobian ::
  "SimulationParameters \<Rightarrow> real \<Rightarrow> vec3 list \<Rightarrow> vec3 list \<Rightarrow> Edge \<Rightarrow> vec3 list \<Rightarrow> vec3 list" where
  "addEdgeVelocityJacobian P eps x u e G =
     (let i = edgeI e; j = edgeJ e;
          d = vsub (x ! i) (x ! j);
          l = norm3 d
      in if l < eps then G
         else
           (let dir = smul (1 / l) d;
                du = vsub (u ! i) (u ! j);
                g = smul (- (dampingConstant P * dot3 dir du)) dir;
                G1 = G[i := vadd (G ! i) g]
            in G1[j := vsub (G1 ! j) g]))"

text \<open>
  Modelled from the spec: the velocity Jacobian over all connections (\<section>4.1, absent
  code).
\<close>

definition linearVelocityJacobian ::
  "SimulationParameters \<Rightarrow> real \<Rightarrow> Topology \<Rightarrow> vec3 list \<Rightarrow> vec3 list \<Rightarrow> vec3 list \<Rightarrow> vec3 list" where
  "linearVelocityJacobian P eps T x v u =
     fold (addEdgeVelocityJacobian P eps x u) (edges T) (lzero (length x))"

text \<open>
  Modelled from the spec: the Linear-Spring-Damper variant as a Force Model (\<section>4.1,
  \<section>9), in place of the absent class.
\<close>

definition linearSpringDamper :: ForceModel where
  "linearSpringDamper =
     \<lparr>computeForces = linearForces,
      applyPositionJacobian = linearPositionJacobian,
      applyVelocityJacobian = linearVelocityJacobian\<rparr>"

subsection \<open>Linear System Assembler\<close>

text \<open>
  Modelled from the spec: the Pin Set handling of the assembler (\<section>4.2, absent code):
  the entries of pinned particles are set to zero.
\<close>

definition maskPinned :: "nat set \<Rightarrow> vec3 list \<Rightarrow> vec3 list" where
  "maskPinned pins u = map (\<lambda>i. if i \<in> pins then vzero else u ! i) [0..<length u]"

text \<open>
  Modelled from the spec: the operator of \<section>4.2 (absent code),
  \<open>A u = M u - h (\<partial>F/\<partial>v) u - h\<^sup>2 (\<partial>F/\<partial>x) u\<close> with the identity for \<open>M\<close>. The rows of
  pinned particles are the identity and their columns are removed.
\<close>

definition systemOperator ::
  "ForceModel \<Rightarrow> SimulationParameters \<Rightarrow> real \<Rightarrow> Topology \<Rightarrow> nat set \<Rightarrow> real \<Rightarrow>
   vec3 list \<Rightarrow> vec3 list \<Rightarrow> vec3 list \<Rightarrow> vec3 list" where
  "systemOperator fm P eps T pins h x v u =
     (let um = maskPinned pins u;
          w = lsub (lsub um (lsmul h (applyVelocityJacobian fm P eps T x v um)))
                   (lsmul (h * h) (applyPositionJacobian fm P eps T x v um))
      in map (\<lambda>i. if i \<in> pins then u ! i else w ! i) [0..<length u])"

text \<open>
  Modelled from the spec: the right-hand side of \<section>4.2 (absent code),
  \<open>b = h (F + h (\<partial>F/\<partial>x) v\<^sub>0)\<close>, with the entries of pinned particles removed.
\<close>

definition rightHandSide ::
  "ForceModel \<Rightarrow> SimulationParameters \<Rightarrow> real \<Rightarrow> Topology \<Rightarrow> nat set \<Rightarrow> real \<Rightarrow>
   vec3 list \<Rightarrow> vec3 list \<Rightarrow> vec3 list" where
  "rightHandSide fm P eps T pins h x v =
     maskPinned pins
       (lsmul h (ladd (computeForces fm P eps T pins x v)
                      (lsmul h (applyPositionJacobian fm P eps T x v v))))"

subsection \<open>Conjugate-Gradient Solver\<close>

text \<open>
  Modelled from the spec: the iteration of the solver of \<section>4.3, whose code is absent.
  It uses the operator as a function, dot products and linear combinations only. It
  stops when the residual norm is below the tolerance or when the iteration cap is
  used up, and returns the iterate it has then. Divisions are those of the real
  numbers.
\<close>

fun cgIterate ::
  "nat \<Rightarrow> (vec3 list \<Rightarrow> vec3 list) \<Rightarrow> real \<Rightarrow> vec3 list \<Rightarrow> vec3 list \<Rightarrow> vec3 list \<Rightarrow> vec3 list" where
  "cgIterate 0 A tol x r p = x"
| "cgIterate (Suc n) A tol x r p =
     (if lnorm r < tol then x
      else
        (let Ap = A p;
             alpha = ldot r r / ldot p Ap;
             x' = ladd x (lsmul alpha p);
             r' = lsub r (lsmul alpha Ap);
             beta = ldot r' r' / ldot r r;
             p' = ladd r' (lsmul beta p)
         in cgIterate n A tol x' r' p'))"

text \<open>
  Modelled from the spec: the solver of \<section>4.3 (absent code): operator, right-hand side,
  initial guess, tolerance and iteration cap give the approximate solution.
\<close>

definition conjugateGradient ::
  "(vec3 list \<Rightarrow> vec3 list) \<Rightarrow> vec3 list \<Rightarrow> vec3 list \<Rightarrow> real \<Rightarrow> nat \<Rightarrow> vec3 list" where
  "conjugateGradient A b x0 tol cap =
     (let r = lsub b (A x0) in cgIterate cap A tol x0 r r)"

subsection \<open>Integrator\<close>

text \<open>
  Modelled from the spec: the state update of a sub-step (\<section>4.4, absent code), one
  particle after the other, each by its index.
\<close>

definition updateParticles :: "(nat \<Rightarrow> Vertex \<Rightarrow> Vertex) \<Rightarrow> Vertex list \<Rightarrow> Vertex list" where
  "updateParticles f ps = map (\<lambda>i. f i (ps ! i)) [0..<length ps]"

text \<open>
  Modelled from the spec: the update of one particle in an implicit sub-step (\<section>4.4,
  absent code), as the section words it: \<open>v \<leftarrow> v + \<Delta>v\<close> (pinned particles excluded),
  then \<open>x \<leftarrow> x + h v\<close> for the particle, pinned or not.
\<close>

definition implicitUpdate :: "real \<Rightarrow> nat set \<Rightarrow> vec3 list \<Rightarrow> nat \<Rightarrow> Vertex \<Rightarrow> Vertex" where
  "implicitUpdate h pins dv i p =
     (let p1 = (if i \<in> pins then p else set_vel3 p (vadd (vel3 p) (dv ! i)))
      in set_pos3 p1 (vadd (pos3 p1) (smul h (vel3 p1))))"

text \<open>
  Modelled from the spec: the implicit sub-step of \<section>4.4 (the absent \<^verbatim>\<open>doUpdate\<close>):
  evaluate the Force Model at the current state, assemble operator and right-hand side,
  solve for \<open>\<Delta>v\<close> from the zero guess, update the state.
\<close>

definition implicitStep :: "real \<Rightarrow> ParticleSystem \<Rightarrow> ParticleSystem" where
  "implicitStep h s =
     (let x = map pos3 (particles s);
          v = map vel3 (particles s);
          fm = forceModel s; P = parameters s; eps = lengthEpsilon (settings s);
          T = topology s; pins = pinSet s;
          b = rightHandSide fm P eps T pins h x v;
          A = systemOperator fm P eps T pins h x v;
          dv = conjugateGradient A b (lzero (length x))
                 (tolerance (settings s)) (maxIterations (settings s))
      in s\<lparr>particles := updateParticles (implicitUpdate h pins dv) (particles s)\<rparr>)"

text \<open>
  Modelled from the spec: the update of one particle in an explicit sub-step (\<section>4.4,
  absent code), forward Euler with unit mass: \<open>x \<leftarrow> x + h v\<close>, and \<open>v \<leftarrow> v + h F\<close> for
  a particle outside the Pin Set (\<section>3: the Pin Set is excluded from force
  integration).
\<close>

definition explicitUpdate :: "real \<Rightarrow> nat set \<Rightarrow> vec3 list \<Rightarrow> nat \<Rightarrow> Vertex \<Rightarrow> Vertex" where
  "explicitUpdate h pins F i p =
     (let p1 = set_pos3 p (vadd (pos3 p) (smul h (vel3 p)))
      in if i \<in> pins then p1 else set_vel3 p1 (vadd (vel3 p1) (smul h (F ! i))))"

text \<open>
  Modelled from the spec: the explicit sub-step of \<section>4.4 (absent code), with the same
  Force Model and without the solver.
\<close>

definition explicitStep :: "real \<Rightarrow> ParticleSystem \<Rightarrow> ParticleSystem" where
  "explicitStep h s =
     (let x = map pos3 (particles s);
          v = map vel3 (particles s);
          F = computeForces (forceModel s) (parameters s) (lengthEpsilon (settings s))
                (topology s) (pinSet s) x v
      in s\<lparr>particles := updateParticles (explicitUpdate h (pinSet s) F) (particles s)\<rparr>)"

text \<open>
  Modelled from the spec: \<^verbatim>\<open>advance(timeElapsed)\<close> of \<section>6 (the absent
  \<^verbatim>\<open>doUpdate\<close>): one sub-step of the given size in the selected mode. Several
  sub-steps are several calls, as in the driver.
\<close>

definition advance :: "real \<Rightarrow> ParticleSystem \<Rightarrow> ParticleSystem" where
  "advance timeElapsed s =
     (case mode s of
        ImplicitStep \<Rightarrow> implicitStep timeElapsed s
      | ExplicitStep \<Rightarrow> explicitStep timeElapsed s)"



text \<open>Motion of a particle at constant velocity over the time \<open>t\<close>.\<close>

definition drift :: "real \<Rightarrow> Vertex \<Rightarrow> Vertex" where
  "drift t p = set_pos3 p (vadd (pos3 p) (smul t (vel3 p)))"

subsection \<open>Normal Calculator\<close>

text \<open>
  Modelled from the spec: the first step of the Normal Calculator of \<section>4.5 (the
  absent \<^verbatim>\<open>calculateNormals\<close>): for each particle, reset the accumulated normal and
  the triangle-incidence count.
\<close>

definition resetNormals :: "ParticleSystem \<Rightarrow> ParticleSystem" where
  "resetNormals s =
     s\<lparr>normals := lzero (length (particles s)),
       particles := map (\<lambda>p. p\<lparr>triangleCount := 0\<rparr>) (particles s)\<rparr>"

text \<open>
  Modelled from the spec: the geometric normal of a Surface Triangle (\<section>4.5, absent
  code), the cross product of two edge vectors. The triangle's indices are those of
  particles (\<section>3).
\<close>

definition faceNormal :: "Vertex list \<Rightarrow> nat \<times> nat \<times> nat \<Rightarrow> vec3" where
  "faceNormal ps t =
     (case t of (a, b, c) \<Rightarrow>
        cross3 (vsub (pos3 (ps ! b)) (pos3 (ps ! a))) (vsub (pos3 (ps ! c)) (pos3 (ps ! a))))"

text \<open>
  Modelled from the spec: adding a face normal to one vertex's accumulator and
  incrementing its count (\<section>4.5, absent code).
\<close>

definition addToVertex :: "vec3 \<Rightarrow> nat \<Rightarrow> ParticleSystem \<Rightarrow> ParticleSystem" where
  "addToVertex n k s =
     s\<lparr>normals := (normals s)[k := vadd (normals s ! k) n],
       particles := (particles s)
         [k := (particles s ! k)\<lparr>triangleCount := triangleCount (particles s ! k) + 1\<rparr>]\<rparr>"

text \<open>
  Modelled from the spec: the step for one Surface Triangle (\<section>4.5, absent code): its
  normal is added to each of its three vertices.
\<close>

definition addTriangle :: "nat \<times> nat \<times> nat \<Rightarrow> ParticleSystem \<Rightarrow> ParticleSystem" where
  "addTriangle t s =
     (case t of (a, b, c) \<Rightarrow>
        (let n = faceNormal (particles s) t
         in addToVertex n c (addToVertex n b (addToVertex n a s))))"

text \<open>
  Modelled from the spec: the final per-vertex normal (\<section>4.5, absent code): the
  accumulated vector divided by the triangle count, and the zero vector as the default
  when the count is zero.
\<close>

definition averageNormal :: "vec3 \<Rightarrow> Vertex \<Rightarrow> vec3" where
  "averageNormal acc p =
     (if triangleCount p = 0 then vzero else smul (1 / real_of_int (triangleCount p)) acc)"

text \<open>
  Modelled from the spec: the final normals of all particles (\<section>4.5, absent code).
\<close>

definition averageNormals :: "ParticleSystem \<Rightarrow> ParticleSystem" where
  "averageNormals s = s\<lparr>normals := map2 averageNormal (normals s) (particles s)\<rparr>"

text \<open>
  Modelled from the spec: \<^verbatim>\<open>refreshNormals()\<close> of \<section>6, the Normal Calculator of
  \<section>4.5 (the absent \<^verbatim>\<open>calculateNormals\<close>): reset, accumulate over the Surface
  Triangles in order, average.
\<close>

definition refreshNormals :: "ParticleSystem \<Rightarrow> ParticleSystem" where
  "refreshNormals s =
     averageNormals (fold addTriangle (triangles (topology s)) (resetNormals s))"

text \<open>
  What the Normal Calculator reads of a state: everything but the normals and the
  triangle counts.
\<close>

definition withoutNormals :: "ParticleSystem \<Rightarrow> ParticleSystem" where
  "withoutNormals s =
     s\<lparr>normals := [], particles := map (\<lambda>p. p\<lparr>triangleCount := 0\<rparr>) (particles s)\<rparr>"

subsection \<open>Concrete systems\<close>




text \<open>
  One tetrahedron with its six edges (rest length 1 each) and four faces, the first
  particle pinned and the second moving along the first axis; stiffness, damping and
  gravity are zero.
\<close>

definition oneTetra :: ParticleSystem where
  "oneTetra =
     \<lparr>particles =
        [\<lparr>position = Float4 0 0 0 1, velocity = Float4 0 0 0 1, triangleCount = 0\<rparr>,
         \<lparr>position = Float4 1 0 0 1, velocity = Float4 1 0 0 1, triangleCount = 0\<rparr>,
         \<lparr>position = Float4 0 1 0 1, velocity = Float4 0 0 0 1, triangleCount = 0\<rparr>,
         \<lparr>position = Float4 0 0 1 1, velocity = Float4 0 0 0 1, triangleCount = 0\<rparr>],
      normals = [vzero, vzero, vzero, vzero],
      topology =
        \<lparr>edges =
           [\<lparr>edgeI = 0, edgeJ = 1, restLength = 1, edgeStiffness = 0, edgeDamping = 0\<rparr>,
            \<lparr>edgeI = 0, edgeJ = 2, restLength = 1, edgeStiffness = 0, edgeDamping = 0\<rparr>,
            \<lparr>edgeI = 0, edgeJ = 3, restLength = 1, edgeStiffness = 0, edgeDamping = 0\<rparr>,
            \<lparr>edgeI = 1, edgeJ = 2, restLength = 1, edgeStiffness = 0, edgeDamping = 0\<rparr>,
            \<lparr>edgeI = 1, edgeJ = 3, restLength = 1, edgeStiffness = 0, edgeDamping = 0\<rparr>,
            \<lparr>edgeI = 2, edgeJ = 3, restLength = 1, edgeStiffness = 0, edgeDamping = 0\<rparr>],
         elements = [(0, 1, 2, 3)],
         triangles = [(0, 2, 1), (0, 1, 3), (0, 3, 2), (1, 2, 3)]\<rparr>,
      pinSet = {0},
      parameters =
        \<lparr>springConstant = 0, dampingConstant = 0, gravity = 0, restLengthScale = 1\<rparr>,
      settings = \<lparr>lengthEpsilon = 1 / 1000000, tolerance = 1 / 1000000, maxIterations = 50\<rparr>,
      mode = ImplicitStep,
      forceModel = linearSpringDamper\<rparr>"

section \<open>Theorems: the driver\<close>

declare update_loop.simps [simp del]

lemma update_loop_unfold:
  "i \<le> 10 \<Longrightarrow> update_loop m t i w =
     \<lparr>particleSystem = (doUpdate m t ^^ nat (10 - i)) (particleSystem w),
      trace = trace w @ replicate (nat (10 - i)) (DoUpdate t)\<rparr>"
proof (induction m t i w rule: update_loop.induct)
  case (1 m t i w)
  show ?case
  proof (cases "i < 10")
    case True
    then have n: "nat (10 - i) = Suc (nat (10 - (i + 1)))" by simp
    have "update_loop m t i w = update_loop m t (i + 1) (call_doUpdate m t w)"
      using True by (subst update_loop.simps) simp
    also have "\<dots> =
      \<lparr>particleSystem =
         (doUpdate m t ^^ nat (10 - (i + 1))) (particleSystem (call_doUpdate m t w)),
       trace = trace (call_doUpdate m t w) @ replicate (nat (10 - (i + 1))) (DoUpdate t)\<rparr>"
      using "1.IH" True by simp
    also have "\<dots> =
      \<lparr>particleSystem = (doUpdate m t ^^ nat (10 - i)) (particleSystem w),
       trace = trace w @ replicate (nat (10 - i)) (DoUpdate t)\<rparr>"
      unfolding n
      by (simp add: call_doUpdate_def emit_def funpow_swap1 replicate_append_same)
    finally show ?thesis .
  next
    case False
    with "1.prems" have "i = 10" by simp
    then show ?thesis by (subst update_loop.simps) simp
  qed
qed

lemma update_loop_0:
  "update_loop m t 0 w =
     \<lparr>particleSystem = (doUpdate m t ^^ 10) (particleSystem w),
      trace = trace w @ replicate 10 (DoUpdate t)\<rparr>"
  using update_loop_unfold [of 0 m t w] by simp

lemmas render_calls =
  render_def Let_def update_loop_0 frame_calls_def emit_def
  call_calculateNormals_def call_doRender_def

lemma render_trace:
  "trace (render dbg lg m w) =
     trace w @ (if dbg \<and> isLogging lg then [GlutGet] else []) @
     frame_calls (timeElapsed_of whichMethod) @
     (if dbg \<and> isLogging lg
      then GlutGet # (if loggingLevel lg \<ge> LIGHT lg then [CoutFrameTime] else [])
      else [])"
  by (simp add: render_calls)

lemma render_state:
  "particleSystem (render dbg lg m w) =
     doRender m (timeElapsed_of whichMethod * 4)
       (calculateNormals m
         ((doUpdate m (timeElapsed_of whichMethod) ^^ 10) (particleSystem w)))"
  by (simp add: render_calls)

text \<open>
  C5. Every call of \<^verbatim>\<open>render\<close> (one iteration of the render loop) calls the particle
  system in this order and no more: \<^verbatim>\<open>doUpdate\<close> ten times, each with the frame's
  time-step, then \<^verbatim>\<open>calculateNormals\<close> once, then \<^verbatim>\<open>doRender\<close> once. The state the
  renderer reads is therefore the one after ten sub-steps followed by a single normal
  computation; the events before this frame are left as they were.
\<close>

theorem render_ten_updates_then_normals_once:
  "filter is_particleSystem_call (drop (length (trace w)) (trace (render dbg lg m w))) =
     replicate 10 (DoUpdate (timeElapsed_of whichMethod)) @
     [CalculateNormals, DoRender (timeElapsed_of whichMethod * 4)]
   \<and> take (length (trace w)) (trace (render dbg lg m w)) = trace w
   \<and> particleSystem (render dbg lg m w) =
     doRender m (timeElapsed_of whichMethod * 4)
       (calculateNormals m
         ((doUpdate m (timeElapsed_of whichMethod) ^^ 10) (particleSystem w)))"
  by (simp add: render_trace render_state frame_calls_def)

text \<open>
  C6. The time-step constant is chosen by the force-model variant: 0.005 for method 1
  (Stanford) and method 2 (Georgia Institute), 0.0005 for method 3 (Nonlinear), and the
  Nonlinear value is strictly smaller than each of the other two.
\<close>

theorem timeElapsed_per_method:
  "timeElapsed_of 1 = 0.005 \<and> timeElapsed_of 2 = 0.005 \<and> timeElapsed_of 3 = 0.0005
   \<and> timeElapsed_of 3 < timeElapsed_of 1 \<and> timeElapsed_of 3 < timeElapsed_of 2"
  by (simp add: timeElapsed_of_def)

section \<open>Theorems: the Vertex constructor\<close>

text \<open>
  C10. The default constructor of \<^verbatim>\<open>Vertex\<close> writes the fourth component of the
  position and of the velocity (to 1) and nothing else: the three spatial components of
  both arrays and \<^verbatim>\<open>triangleCount\<close> are whatever the storage held before
  (\<open>a\<close>, \<open>b\<close>, \<open>c\<close>, \<open>e\<close>, \<open>f\<close>, \<open>g\<close> and \<open>k\<close> below are arbitrary), so a particle
  read before they are written yields values the constructor does not determine.
\<close>

theorem Vertex_ctor_writes_only_homogeneous:
  "Vertex_ctor \<lparr>position = Float4 a b c d, velocity = Float4 e f g h, triangleCount = k\<rparr>
     = \<lparr>position = Float4 a b c 1, velocity = Float4 e f g 1, triangleCount = k\<rparr>
   \<and> get4 (position (Vertex_ctor raw)) 3 = 1
   \<and> get4 (velocity (Vertex_ctor raw)) 3 = 1
   \<and> get4 (position (Vertex_ctor raw)) 0 = get4 (position raw) 0
   \<and> get4 (position (Vertex_ctor raw)) 1 = get4 (position raw) 1
   \<and> get4 (position (Vertex_ctor raw)) 2 = get4 (position raw) 2
   \<and> get4 (velocity (Vertex_ctor raw)) 0 = get4 (velocity raw) 0
   \<and> get4 (velocity (Vertex_ctor raw)) 1 = get4 (velocity raw) 1
   \<and> get4 (velocity (Vertex_ctor raw)) 2 = get4 (velocity raw) 2
   \<and> triangleCount (Vertex_ctor raw) = triangleCount raw"
  by (cases "position raw"; cases "velocity raw") (simp add: Vertex_ctor_def DIMENSION_def)

section \<open>Theorems: the integrator\<close>

subsection \<open>Vectors and cells\<close>

lemma vadd_zero [simp]: "vadd u (0, 0, 0) = u"
  by (cases u) simp

lemma vsub_zero [simp]: "vsub u (0, 0, 0) = u"
  by (cases u) simp

lemma smul_zero_left [simp]: "smul 0 u = (0, 0, 0)"
  by (cases u) simp


lemma get4_set4_id [simp]:
  "set4 (set4 (set4 q 0 (get4 q 0)) (Suc 0) (get4 q (Suc 0))) 2 (get4 q 2) = q"
  by (cases q) simp

lemma set_vel3_vel3 [simp]: "set_vel3 p (vel3 p) = p"
  by (simp add: vel3_def)

lemma vel3_set_pos3 [simp]: "vel3 (set_pos3 p u) = vel3 p"
  by (cases u) (simp add: vel3_def)

lemma velocity_set_pos3 [simp]: "velocity (set_pos3 p u) = velocity p"
  by (cases u) simp

lemma set_vel3_set_pos3 [simp]: "set_vel3 (set_pos3 p u) (vel3 p) = set_pos3 p u"
  by (metis set_vel3_vel3 vel3_set_pos3)

lemma pos3_set_pos3 [simp]: "pos3 (set_pos3 p u) = u"
  by (cases u; cases "position p") (simp add: pos3_def)

lemma set_pos3_twice [simp]: "set_pos3 (set_pos3 p u) w = set_pos3 p w"
  by (cases u; cases w; cases "position p") simp

lemma set_pos3_pos3 [simp]: "set_pos3 p (pos3 p) = p"
  by (simp add: pos3_def)

lemma velocity_drift [simp]: "velocity (drift t p) = velocity p"
  by (simp add: drift_def)

lemma vel3_drift [simp]: "vel3 (drift t p) = vel3 p"
  by (simp add: drift_def)



subsection \<open>The update of a pinned particle\<close>

lemma updateParticles_length [simp]: "length (updateParticles f ps) = length ps"
  by (simp add: updateParticles_def)




lemma advance_pinSet [simp]: "pinSet (advance h s) = pinSet s"
  by (cases "mode s") (simp_all add: advance_def implicitStep_def explicitStep_def Let_def)

lemma advance_length [simp]: "length (particles (advance h s)) = length (particles s)"
  by (cases "mode s") (simp_all add: advance_def implicitStep_def explicitStep_def Let_def)


lemma advance_funpow_pinSet [simp]: "pinSet ((advance h ^^ n) s) = pinSet s"
  by (induction n) simp_all

lemma advance_funpow_length [simp]:
  "length (particles ((advance h ^^ n) s)) = length (particles s)"
  by (induction n) simp_all


subsection \<open>An implicit sub-step, computed\<close>










section \<open>Theorems: the Pin Set\<close>




section \<open>Theorems: zero stiffness, damping and gravity\<close>













lemma lsmul_lzero [simp]: "lsmul k (lzero n) = lzero n"
  by (simp add: lsmul_def lzero_def vzero_def)

lemma ladd_lzero [simp]: "ladd (lzero n) (lzero n) = lzero n"
  by (simp add: ladd_def lzero_def vzero_def map2_map_map flip: map_replicate)

lemma lsub_lzero [simp]: "lsub (lzero n) (lzero n) = lzero n"
  by (simp add: lsub_def lzero_def vzero_def)

lemma length_lzero [simp]: "length (lzero n) = n"
  by (simp add: lzero_def)

lemma nth_lzero [simp]: "i < n \<Longrightarrow> lzero n ! i = vzero"
  by (simp add: lzero_def)

lemma maskPinned_lzero [simp]: "maskPinned pins (lzero n) = lzero n"
  by (rule nth_equalityI) (simp_all add: maskPinned_def)



text \<open>
  From a zero guess, a zero residual and a zero direction the solver stays at zero,
  whatever the tolerance and the step lengths it computes: each of them multiplies a
  zero vector.
\<close>

lemma cgIterate_all_zero:
  "A (lzero n) = lzero n \<Longrightarrow> cgIterate k A tol (lzero n) (lzero n) (lzero n) = lzero n"
  by (induction k) (simp_all add: Let_def)

lemma conjugateGradient_zero:
  "A (lzero n) = lzero n \<Longrightarrow> conjugateGradient A (lzero n) (lzero n) tol k = lzero n"
  by (simp add: conjugateGradient_def cgIterate_all_zero)









section \<open>Theorems: the Normal Calculator\<close>

lemma resetNormals_withoutNormals:
  "resetNormals s =
     (withoutNormals s)\<lparr>normals := lzero (length (particles (withoutNormals s)))\<rparr>"
  by (simp add: resetNormals_def withoutNormals_def)

lemma withoutNormals_resetNormals [simp]: "withoutNormals (resetNormals s) = withoutNormals s"
  by (simp add: resetNormals_def withoutNormals_def)

lemma clear_count_update:
  "map (\<lambda>p. p\<lparr>triangleCount := 0\<rparr>) (ps[k := (ps ! k)\<lparr>triangleCount := c\<rparr>]) =
   map (\<lambda>p. p\<lparr>triangleCount := 0\<rparr>) ps"
proof (cases "k < length ps")
  case True
  then show ?thesis by (intro nth_equalityI) (auto simp: nth_list_update)
next
  case False
  then have "ps[k := (ps ! k)\<lparr>triangleCount := c\<rparr>] = ps"
    by (intro list_update_beyond) simp
  then show ?thesis by simp
qed

lemma withoutNormals_addToVertex [simp]:
  "withoutNormals (addToVertex n k s) = withoutNormals s"
  by (simp add: addToVertex_def withoutNormals_def clear_count_update)

lemma withoutNormals_addTriangle [simp]:
  "withoutNormals (addTriangle t s) = withoutNormals s"
  by (cases t) (simp add: addTriangle_def Let_def)

lemma withoutNormals_fold [simp]:
  "withoutNormals (fold addTriangle ts s) = withoutNormals s"
  by (induction ts arbitrary: s) simp_all

lemma withoutNormals_averageNormals [simp]:
  "withoutNormals (averageNormals s) = withoutNormals s"
  by (simp add: averageNormals_def withoutNormals_def)

lemma withoutNormals_refreshNormals [simp]:
  "withoutNormals (refreshNormals s) = withoutNormals s"
  by (simp add: refreshNormals_def)

lemma topology_withoutNormals: "topology (withoutNormals s) = topology s"
  by (simp add: withoutNormals_def)

lemma topology_refreshNormals [simp]: "topology (refreshNormals s) = topology s"
  using topology_withoutNormals [of "refreshNormals s"] topology_withoutNormals [of s]
  by simp

lemma resetNormals_refreshNormals: "resetNormals (refreshNormals s) = resetNormals s"
  by (simp add: resetNormals_withoutNormals)

lemma positions_withoutNormals:
  "map position (particles (withoutNormals s)) = map position (particles s)"
  by (simp add: withoutNormals_def)

text \<open>The Normal Calculator does not move a particle.\<close>

lemma refreshNormals_keeps_positions:
  "map position (particles (refreshNormals s)) = map position (particles s)"
  using positions_withoutNormals [of "refreshNormals s"] positions_withoutNormals [of s]
  by simp

text \<open>
  On the tetrahedron the calculator gives each vertex the mean of its three face
  normals and the count 3, whatever the normals and counts were before.
\<close>

lemma refreshNormals_oneTetra:
  "normals (refreshNormals oneTetra) =
     [(- 1 / 3, - 1 / 3, - 1 / 3), (1 / 3, 0, 0), (0, 1 / 3, 0), (0, 0, 1 / 3)]
   \<and> map triangleCount (particles (refreshNormals oneTetra)) = [3, 3, 3, 3]
   \<and> normals (refreshNormals oneTetra) \<noteq> normals oneTetra"
  by (simp add: refreshNormals_def oneTetra_def resetNormals_def addTriangle_def
      addToVertex_def averageNormals_def averageNormal_def faceNormal_def pos3_def lzero_def
      vzero_def Let_def)

text \<open>
  C7. \<open>refreshNormals\<close> is idempotent: a second call with no \<open>advance\<close> in between
  gives the state of the first call, in particular the same per-vertex normals. Each
  call resets the accumulated normals and the triangle counts before it accumulates,
  and it reads nothing else that the first call has changed.
\<close>

theorem refreshNormals_idempotent:
  "refreshNormals (refreshNormals s) = refreshNormals s
   \<and> normals (refreshNormals (refreshNormals s)) = normals (refreshNormals s)"
proof -
  have "refreshNormals (refreshNormals s) =
        averageNormals (fold addTriangle (triangles (topology s))
          (resetNormals (refreshNormals s)))"
    by (simp add: refreshNormals_def [of "refreshNormals s"])
  also have "\<dots> =
        averageNormals (fold addTriangle (triangles (topology s)) (resetNormals s))"
    by (simp only: resetNormals_refreshNormals)
  also have "\<dots> = refreshNormals s"
    by (simp only: refreshNormals_def)
  finally show ?thesis by simp
qed

end
